theory Spec2Isabelle
  imports Complex_Main "HOL-Library.AList" "HOL-Library.Sublist"
begin

section \<open>Python values\<close>

text \<open>
  The values \<^verbatim>\<open>json.loads\<close> can return. A Python \<^verbatim>\<open>str\<close> is a \<^typ>\<open>string\<close> in
  which one \<^typ>\<open>char\<close> stands for one code point, so that \<^const>\<open>length\<close> is Python's
  \<^verbatim>\<open>len\<close>. A \<^verbatim>\<open>dict\<close> is an association list in insertion order; Python keeps its
  keys distinct, and a key is looked up with \<^const>\<open>map_of\<close>.
\<close>

datatype pyfloat = Finite real | PosInf | NegInf | NaN

datatype json =
    JNull
  | JBool bool
  | JInt int
  | JFloat pyfloat
  | JStr string
  | JArr "json list"
  | JObj "(string \<times> json) list"

text \<open>
  The exceptions of the module. \<open>OtherException\<close> is any other subclass of
  \<^verbatim>\<open>Exception\<close> raised by a collaborator (the LLM client, the MongoDB driver); it
  carries \<^verbatim>\<open>str(e)\<close>.
\<close>

datatype exn =
    HTTPException nat string
  | AttributeError string
  | TypeError string
  | OtherException string

fun type_name :: "json \<Rightarrow> string" where
  "type_name JNull = ''NoneType''"
| "type_name (JBool b) = ''bool''"
| "type_name (JInt i) = ''int''"
| "type_name (JFloat f) = ''float''"
| "type_name (JStr s) = ''str''"
| "type_name (JArr xs) = ''list''"
| "type_name (JObj d) = ''dict''"

definition quoted :: "string \<Rightarrow> string" where
  "quoted s = CHR 0x27 # s @ [CHR 0x27]"

definition no_attribute :: "json \<Rightarrow> string \<Rightarrow> exn" where
  "no_attribute v attr =
     AttributeError (quoted (type_name v) @ '' object has no attribute '' @ quoted attr)"

text \<open>\<^verbatim>\<open>v.get(key, default)\<close>: only a \<^verbatim>\<open>dict\<close> has the method.\<close>

fun py_get :: "json \<Rightarrow> string \<Rightarrow> json \<Rightarrow> exn + json" where
  "py_get (JObj d) key dflt = Inr (case map_of d key of None \<Rightarrow> dflt | Some v \<Rightarrow> v)"
| "py_get v key dflt = Inl (no_attribute v ''get'')"

text \<open>Truth value testing, as \<^verbatim>\<open>if v\<close> and \<^verbatim>\<open>v and w\<close> do it.\<close>

fun truthy :: "json \<Rightarrow> bool" where
  "truthy JNull = False"
| "truthy (JBool b) = b"
| "truthy (JInt i) = (i \<noteq> 0)"
| "truthy (JFloat f) = (f \<noteq> Finite 0)"
| "truthy (JStr s) = (s \<noteq> [])"
| "truthy (JArr xs) = (xs \<noteq> [])"
| "truthy (JObj d) = (d \<noteq> [])"

text \<open>\<^verbatim>\<open>len(v)\<close>: numbers, booleans and \<^verbatim>\<open>None\<close> have no length.\<close>

fun py_len :: "json \<Rightarrow> exn + nat" where
  "py_len (JStr s) = Inr (length s)"
| "py_len (JArr xs) = Inr (length xs)"
| "py_len (JObj d) = Inr (length d)"
| "py_len v = Inl (TypeError (''object of type '' @ quoted (type_name v) @ '' has no len()''))"


section \<open>The result combiner\<close>

text \<open>The dictionary \<^verbatim>\<open>combined\<close> built by \<^verbatim>\<open>combine_ai_results\<close>.\<close>

record combined =
  comparison :: string
  openai_summary :: json
  gemini_summary :: json
  consensus :: "(string \<times> bool) list"
  discrepancies :: "string list"

definition combine_ai_results :: "json \<Rightarrow> json \<Rightarrow> exn + combined" where
  "combine_ai_results openai_result gemini_result =
     (let combined = \<lparr>comparison = ''dual_ai_analysis'',
                      openai_summary = openai_result,
                      gemini_summary = gemini_result,
                      consensus = [],
                      discrepancies = []\<rparr>
      in case py_get openai_result ''currencies_detected'' (JArr []) of
           Inl e \<Rightarrow> Inl e
         | Inr openai_currencies \<Rightarrow>
        (case py_get gemini_result ''currencies_detected'' (JArr []) of
           Inl e \<Rightarrow> Inl e
         | Inr gemini_currencies \<Rightarrow>
             if truthy openai_currencies \<and> truthy gemini_currencies then
               (case py_len openai_currencies of
                  Inl e \<Rightarrow> Inl e
                | Inr n \<Rightarrow>
               (case py_len gemini_currencies of
                  Inl e \<Rightarrow> Inl e
                | Inr m \<Rightarrow>
                    if n = m then
                      Inr (combined\<lparr>consensus :=
                             AList.update ''currency_count_match'' True (consensus combined)\<rparr>)
                    else
                      Inr (combined\<lparr>discrepancies :=
                             discrepancies combined @ [''Different number of currencies detected'']\<rparr>)))
             else Inr combined))"


section \<open>Collaborators and state\<close>

datatype provider = OpenAI | Gemini

text \<open>
  What the body of an adapter's outer \<^verbatim>\<open>try\<close> does up to and including
  \<^verbatim>\<open>chat.send_message\<close>: it returns the response text, or raises an \<^verbatim>\<open>Exception\<close>
  \<open>e\<close>, of which \<open>Raised\<close> carries \<^verbatim>\<open>str(e)\<close>. A \<^verbatim>\<open>BaseException\<close> outside
  \<^verbatim>\<open>Exception\<close> (the cancellation of the task, an interrupt) is not modelled.
\<close>

datatype call_outcome = Returned string | Raised string

text \<open>
  What \<^verbatim>\<open>analysis_collection.insert_one\<close> does: it stores the document under a new
  \<^verbatim>\<open>_id\<close>, or raises an \<^verbatim>\<open>Exception\<close> \<open>e\<close>, of which \<open>InsertRaised\<close> carries
  \<^verbatim>\<open>str(e)\<close>.
\<close>

datatype insert_outcome = Inserted nat | InsertRaised string

text \<open>
  The upload: its declared type and name, both optional in a multipart request, and
  what \<^verbatim>\<open>await file.read()\<close> returns, one \<^typ>\<open>char\<close> for each byte.
\<close>

record upload_file =
  content_type :: "string option"
  filename :: "string option"
  file_bytes :: string

record user =
  username :: string

text \<open>
  A document of \<^verbatim>\<open>analysis_collection\<close>. The key \<^verbatim>\<open>_id\<close> is absent from
  \<^verbatim>\<open>analysis_doc\<close> as it is built and is added by \<^verbatim>\<open>insert_one\<close>.
\<close>

record analysis_doc =
  mongo_id :: "nat option"
  doc_id :: string
  doc_user_id :: string
  doc_openai_result :: json
  doc_gemini_result :: json
  doc_combined_analysis :: combined
  doc_timestamp :: nat
  doc_filename :: "string option"

text \<open>The dictionary \<^verbatim>\<open>analyze_currency\<close> returns.\<close>

record response =
  resp_analysis_id :: string
  resp_openai_result :: json
  resp_gemini_result :: json
  resp_combined_analysis :: combined
  resp_timestamp :: nat

text \<open>
  The library functions and the outside world as one request meets them: the two
  provider calls, \<^verbatim>\<open>json.loads\<close> (\<open>None\<close> when it raises), \<^verbatim>\<open>base64.b64encode\<close>
  followed by \<^verbatim>\<open>decode\<close>, \<^verbatim>\<open>str(uuid.uuid4())\<close>, \<^verbatim>\<open>datetime.utcnow()\<close>, the store
  write, and \<^verbatim>\<open>str\<close> of an \<^verbatim>\<open>HTTPException\<close>, which depends on the installed
  version of the web framework.
\<close>

record env =
  send_message :: "provider \<Rightarrow> string \<Rightarrow> call_outcome"
  json_loads :: "string \<Rightarrow> json option"
  b64encode :: "string \<Rightarrow> string"
  uuid4 :: string
  utcnow :: nat
  insert_result :: insert_outcome
  str_http_exception :: "nat \<Rightarrow> string \<Rightarrow> string"

datatype event = B64Encode string | SendMessage provider string

text \<open>The store, and the calls made so far, oldest first.\<close>

record world =
  analysis_collection :: "analysis_doc list"
  calls :: "event list"

fun str_exn :: "env \<Rightarrow> exn \<Rightarrow> string" where
  "str_exn env (HTTPException code detail) = str_http_exception env code detail"
| "str_exn env (AttributeError m) = m"
| "str_exn env (TypeError m) = m"
| "str_exn env (OtherException m) = m"

definition convert_image_to_base64 :: "env \<Rightarrow> string \<Rightarrow> world \<Rightarrow> string \<times> world" where
  "convert_image_to_base64 env image_bytes w =
     (b64encode env image_bytes, w\<lparr>calls := calls w @ [B64Encode image_bytes]\<rparr>)"


section \<open>The provider adapters\<close>

definition analyze_with_openai :: "env \<Rightarrow> string \<Rightarrow> world \<Rightarrow> json \<times> world" where
  "analyze_with_openai env image_base64 w =
     (let w' = w\<lparr>calls := calls w @ [SendMessage OpenAI image_base64]\<rparr>
      in case send_message env OpenAI image_base64 of
           Raised e \<Rightarrow>
             (JObj [(''error'', JStr e), (''provider'', JStr ''OpenAI GPT-4o-mini'')], w')
         | Returned response \<Rightarrow>
             (case json_loads env response of
                Some v \<Rightarrow> (v, w')
              | None \<Rightarrow>
                  (JObj [(''raw_response'', JStr response),
                         (''provider'', JStr ''OpenAI GPT-4o-mini'')], w')))"

definition analyze_with_gemini :: "env \<Rightarrow> string \<Rightarrow> world \<Rightarrow> json \<times> world" where
  "analyze_with_gemini env image_base64 w =
     (let w' = w\<lparr>calls := calls w @ [SendMessage Gemini image_base64]\<rparr>
      in case send_message env Gemini image_base64 of
           Raised e \<Rightarrow>
             (JObj [(''error'', JStr e), (''provider'', JStr ''Google Gemini 2.0 Flash'')], w')
         | Returned response \<Rightarrow>
             (case json_loads env response of
                Some v \<Rightarrow> (v, w')
              | None \<Rightarrow>
                  (JObj [(''raw_response'', JStr response),
                         (''provider'', JStr ''Google Gemini 2.0 Flash'')], w')))"


section \<open>The routes\<close>

definition insert_one :: "env \<Rightarrow> analysis_doc \<Rightarrow> world \<Rightarrow> (exn + analysis_doc) \<times> world" where
  "insert_one env doc w =
     (case insert_result env of
        InsertRaised m \<Rightarrow> (Inl (OtherException m), w)
      | Inserted oid \<Rightarrow>
          (let doc' = doc\<lparr>mongo_id := Some oid\<rparr>
           in (Inr doc', w\<lparr>analysis_collection := analysis_collection w @ [doc']\<rparr>)))"

text \<open>The body of the \<^verbatim>\<open>try\<close> of \<^verbatim>\<open>analyze_currency\<close>; \<open>Inl\<close> is a raised exception.\<close>

definition analyze_currency_try ::
  "env \<Rightarrow> upload_file \<Rightarrow> user \<Rightarrow> world \<Rightarrow> (exn + response) \<times> world" where
  "analyze_currency_try env file current_user w =
     (case content_type file of
        None \<Rightarrow> (Inl (no_attribute JNull ''startswith''), w)
      | Some ct \<Rightarrow>
          if \<not> prefix ''image/'' ct then
            (Inl (HTTPException 400 ''File must be an image''), w)
          else
            (let image_bytes = file_bytes file;
                 (image_base64, w1) = convert_image_to_base64 env image_bytes w;
                 (openai_result, w2) = analyze_with_openai env image_base64 w1;
                 (gemini_result, w3) = analyze_with_gemini env image_base64 w2
             in case combine_ai_results openai_result gemini_result of
                  Inl e \<Rightarrow> (Inl e, w3)
                | Inr combined_analysis \<Rightarrow>
                    (let analysis_doc =
                           \<lparr>mongo_id = None,
                            doc_id = uuid4 env,
                            doc_user_id = username current_user,
                            doc_openai_result = openai_result,
                            doc_gemini_result = gemini_result,
                            doc_combined_analysis = combined_analysis,
                            doc_timestamp = utcnow env,
                            doc_filename = filename file\<rparr>
                     in case insert_one env analysis_doc w3 of
                          (Inl e, w4) \<Rightarrow> (Inl e, w4)
                        | (Inr stored, w4) \<Rightarrow>
                            (Inr \<lparr>resp_analysis_id = doc_id stored,
                                  resp_openai_result = openai_result,
                                  resp_gemini_result = gemini_result,
                                  resp_combined_analysis = combined_analysis,
                                  resp_timestamp = doc_timestamp stored\<rparr>, w4))))"

text \<open>
  The route with its handler \<^verbatim>\<open>except Exception as e\<close>, which turns whatever the body
  raised into \<^verbatim>\<open>HTTPException(status_code=500, detail=str(e))\<close>.
\<close>

definition analyze_currency ::
  "env \<Rightarrow> upload_file \<Rightarrow> user \<Rightarrow> world \<Rightarrow> (exn + response) \<times> world" where
  "analyze_currency env file current_user w =
     (case analyze_currency_try env file current_user w of
        (Inl e, w') \<Rightarrow> (Inl (HTTPException 500 (str_exn env e)), w')
      | (Inr r, w') \<Rightarrow> (Inr r, w'))"

text \<open>
  \<^verbatim>\<open>find_one\<close> with the filter on \<^verbatim>\<open>id\<close> and \<^verbatim>\<open>user_id\<close>, then
  \<^verbatim>\<open>analysis.pop('_id', None)\<close>.
\<close>

definition get_analysis :: "string \<Rightarrow> user \<Rightarrow> world \<Rightarrow> exn + analysis_doc" where
  "get_analysis analysis_id current_user w =
     (case find (\<lambda>d. doc_id d = analysis_id \<and> doc_user_id d = username current_user)
                (analysis_collection w) of
        None \<Rightarrow> Inl (HTTPException 404 ''Analysis not found'')
      | Some analysis \<Rightarrow> Inr (analysis\<lparr>mongo_id := None\<rparr>))"


section \<open>Sample data\<close>

text \<open>The detection of the prompt's example: one 20 dollar note.\<close>

definition usd20 :: json where
  "usd20 = JObj [(''currency_type'', JStr ''USD''), (''denomination'', JStr ''20''),
                 (''quantity'', JInt 1), (''confidence'', JStr ''high'')]"

text \<open>
  A stand-in for \<^verbatim>\<open>json.loads\<close> that agrees with it on the three response texts used
  below: an empty object, a bare number, and prose, which is no JSON.
\<close>

definition demo_loads :: "string \<Rightarrow> json option" where
  "demo_loads s =
     (if s = ''{}'' then Some (JObj [])
      else if s = ''5'' then Some (JInt 5)
      else None)"

text \<open>Provider calls whose outcome is fixed for each provider.\<close>

definition send_const :: "call_outcome \<Rightarrow> call_outcome \<Rightarrow> provider \<Rightarrow> string \<Rightarrow> call_outcome" where
  "send_const a b p img = (case p of OpenAI \<Rightarrow> a | Gemini \<Rightarrow> b)"

text \<open>Provider calls whose outcome depends on the image sent.\<close>

definition send_by_image :: "provider \<Rightarrow> string \<Rightarrow> call_outcome" where
  "send_by_image p img =
     (if img = ''cHJvc2U='' then Returned ''I see no currency''
      else if img = ''ZXJy'' then Raised ''quota exceeded''
      else if img = ''e30='' then Returned ''{}''
      else Returned ''5'')"

definition demo_env :: "(provider \<Rightarrow> string \<Rightarrow> call_outcome) \<Rightarrow> insert_outcome \<Rightarrow> env" where
  "demo_env send ins =
     \<lparr>send_message = send,
      json_loads = demo_loads,
      b64encode = (\<lambda>bs. if bs = ''hi'' then ''aGk='' else []),
      uuid4 = ''3f2b8c1e-0d4a-4e57-9a6b-1c2d3e4f5a6b'',
      utcnow = 1700000000,
      insert_result = ins,
      str_http_exception = (\<lambda>code detail. if code = 400 then ''400: '' @ detail else detail)\<rparr>"

definition demo_file :: upload_file where
  "demo_file = \<lparr>content_type = Some ''image/png'', filename = Some ''test_currency.png'',
                 file_bytes = ''hi''\<rparr>"

definition alice :: user where
  "alice = \<lparr>username = ''alice''\<rparr>"

definition bob :: user where
  "bob = \<lparr>username = ''bob''\<rparr>"

definition empty_world :: world where
  "empty_world = \<lparr>analysis_collection = [], calls = []\<rparr>"

text \<open>The world after Alice's upload has been analysed and stored.\<close>

definition stored_world :: world where
  "stored_world =
     snd (analyze_currency
            (demo_env (send_const (Returned ''{}'') (Returned ''{}'')) (Inserted 1))
            demo_file alice empty_world)"


section \<open>The adapters and the route, step by step\<close>

lemma openai_world:
  "snd (analyze_with_openai env i w) = w\<lparr>calls := calls w @ [SendMessage OpenAI i]\<rparr>"
  by (simp add: analyze_with_openai_def Let_def split: call_outcome.splits option.splits)

lemma gemini_world:
  "snd (analyze_with_gemini env i w) = w\<lparr>calls := calls w @ [SendMessage Gemini i]\<rparr>"
  by (simp add: analyze_with_gemini_def Let_def split: call_outcome.splits option.splits)

lemma openai_result_any_world:
  "fst (analyze_with_openai env i w) = fst (analyze_with_openai env i w')"
  by (simp add: analyze_with_openai_def Let_def split: call_outcome.splits option.splits)

lemma gemini_result_any_world:
  "fst (analyze_with_gemini env i w) = fst (analyze_with_gemini env i w')"
  by (simp add: analyze_with_gemini_def Let_def split: call_outcome.splits option.splits)

text \<open>The body of the route on an upload whose declared type is an image.\<close>

lemma analyze_currency_try_image:
  assumes "content_type file = Some ct" and "prefix ''image/'' ct"
  shows "analyze_currency_try env file u w =
     (let i = b64encode env (file_bytes file);
          a = fst (analyze_with_openai env i w);
          b = fst (analyze_with_gemini env i w);
          w3 = w\<lparr>calls := calls w @ [B64Encode (file_bytes file), SendMessage OpenAI i,
                                      SendMessage Gemini i]\<rparr>
      in case combine_ai_results a b of
           Inl e \<Rightarrow> (Inl e, w3)
         | Inr c \<Rightarrow>
            (case insert_result env of
               InsertRaised m \<Rightarrow> (Inl (OtherException m), w3)
             | Inserted oid \<Rightarrow>
                 (Inr \<lparr>resp_analysis_id = uuid4 env, resp_openai_result = a,
                       resp_gemini_result = b, resp_combined_analysis = c,
                       resp_timestamp = utcnow env\<rparr>,
                  w3\<lparr>analysis_collection := analysis_collection w @
                     [\<lparr>mongo_id = Some oid, doc_id = uuid4 env, doc_user_id = username u,
                       doc_openai_result = a, doc_gemini_result = b,
                       doc_combined_analysis = c, doc_timestamp = utcnow env,
                       doc_filename = filename file\<rparr>]\<rparr>)))"
proof -
  let ?i = "b64encode env (file_bytes file)"
  let ?w1 = "w\<lparr>calls := calls w @ [B64Encode (file_bytes file)]\<rparr>"
  let ?w2 = "w\<lparr>calls := calls w @ [B64Encode (file_bytes file), SendMessage OpenAI ?i]\<rparr>"
  have a: "fst (analyze_with_openai env ?i ?w1) = fst (analyze_with_openai env ?i w)"
    by (rule openai_result_any_world)
  have b: "fst (analyze_with_gemini env ?i ?w2) = fst (analyze_with_gemini env ?i w)"
    by (rule gemini_result_any_world)
  show ?thesis
    using assms
    by (simp add: analyze_currency_try_def convert_image_to_base64_def split_beta Let_def
        a b openai_world gemini_world insert_one_def
        split: sum.splits insert_outcome.splits)
qed

text \<open>In a store whose ids are distinct, the filter of the single read finds a stored
  document exactly for its owner.\<close>

lemma find_distinct_id:
  assumes "distinct (map doc_id ds)" and "d \<in> set ds"
  shows "find (\<lambda>x. doc_id x = doc_id d \<and> doc_user_id x = name) ds =
           (if doc_user_id d = name then Some d else None)"
  using assms
proof (induction ds)
  case Nil
  then show ?case by simp
next
  case (Cons x ds)
  show ?case
  proof (cases "x = d")
    case True
    with Cons.prems show ?thesis
      by (auto simp add: find_None_iff image_iff)
  next
    case False
    with Cons.prems have "d \<in> set ds" and "doc_id x \<noteq> doc_id d"
      by (auto simp add: image_iff)
    with Cons show ?thesis by simp
  qed
qed


section \<open>The combiner on two structured results\<close>

text \<open>
  Two structured results whose detection lists are both empty have lists of equal
  length, and the combiner records no \<^verbatim>\<open>currency_count_match\<close>: the guard
  \<^verbatim>\<open>if openai_currencies and gemini_currencies\<close> skips the comparison.
\<close>

theorem C1_counterexample_both_empty:
  "combine_ai_results (JObj [(''currencies_detected'', JArr [])])
                      (JObj [(''currencies_detected'', JArr [])])
   = Inr \<lparr>comparison = ''dual_ai_analysis'',
          openai_summary = JObj [(''currencies_detected'', JArr [])],
          gemini_summary = JObj [(''currencies_detected'', JArr [])],
          consensus = [], discrepancies = []\<rparr>"
  by (simp add: combine_ai_results_def)

text \<open>
  Claim C1, amended: for two structured results whose detection lists are non-empty
  and of equal length, the combiner's output has \<^verbatim>\<open>currency_count_match\<close> set to true
  in its consensus and no discrepancies.
\<close>

theorem C1_equal_nonempty_lengths_match:
  assumes "map_of d1 ''currencies_detected'' = Some (JArr xs)"
      and "map_of d2 ''currencies_detected'' = Some (JArr ys)"
      and "xs \<noteq> []" and "length xs = length ys"
  shows "combine_ai_results (JObj d1) (JObj d2)
       = Inr \<lparr>comparison = ''dual_ai_analysis'',
              openai_summary = JObj d1,
              gemini_summary = JObj d2,
              consensus = [(''currency_count_match'', True)],
              discrepancies = []\<rparr>"
  using assms by (auto simp add: combine_ai_results_def Let_def)

theorem C1_equal_nonempty_lengths_match_witness:
  "combine_ai_results (JObj [(''currencies_detected'', JArr [usd20])])
                      (JObj [(''currencies_detected'', JArr [usd20])])
   = Inr \<lparr>comparison = ''dual_ai_analysis'',
          openai_summary = JObj [(''currencies_detected'', JArr [usd20])],
          gemini_summary = JObj [(''currencies_detected'', JArr [usd20])],
          consensus = [(''currency_count_match'', True)],
          discrepancies = []\<rparr>"
proof -
  have h: "map_of [(''currencies_detected'', JArr [usd20])] ''currencies_detected''
             = Some (JArr [usd20])"
    by simp
  have ne: "[usd20] \<noteq> []" and len: "length [usd20] = length [usd20]"
    by simp_all
  from C1_equal_nonempty_lengths_match [OF h h ne len] show ?thesis .
qed

text \<open>
  An empty detection list against a list of one detection: the lengths differ, and the
  combiner records no discrepancy, by the same guard.
\<close>

theorem C2_counterexample_one_empty:
  "combine_ai_results (JObj [(''currencies_detected'', JArr [])])
                      (JObj [(''currencies_detected'', JArr [usd20])])
   = Inr \<lparr>comparison = ''dual_ai_analysis'',
          openai_summary = JObj [(''currencies_detected'', JArr [])],
          gemini_summary = JObj [(''currencies_detected'', JArr [usd20])],
          consensus = [], discrepancies = []\<rparr>"
  by (simp add: combine_ai_results_def)

text \<open>
  Claim C2, amended: for two structured results whose detection lists are both
  non-empty and of differing lengths, the combiner's output has exactly one discrepancy,
  "Different number of currencies detected", and a consensus without the key
  \<^verbatim>\<open>currency_count_match\<close>.
\<close>

theorem C2_differing_nonempty_lengths_discrepancy:
  assumes "map_of d1 ''currencies_detected'' = Some (JArr xs)"
      and "map_of d2 ''currencies_detected'' = Some (JArr ys)"
      and "xs \<noteq> []" and "ys \<noteq> []" and "length xs \<noteq> length ys"
  shows "combine_ai_results (JObj d1) (JObj d2)
       = Inr \<lparr>comparison = ''dual_ai_analysis'',
              openai_summary = JObj d1,
              gemini_summary = JObj d2,
              consensus = [],
              discrepancies = [''Different number of currencies detected'']\<rparr>"
  using assms by (simp add: combine_ai_results_def Let_def)

theorem C2_differing_nonempty_lengths_discrepancy_witness:
  "combine_ai_results (JObj [(''currencies_detected'', JArr [usd20])])
                      (JObj [(''currencies_detected'', JArr [usd20, usd20])])
   = Inr \<lparr>comparison = ''dual_ai_analysis'',
          openai_summary = JObj [(''currencies_detected'', JArr [usd20])],
          gemini_summary = JObj [(''currencies_detected'', JArr [usd20, usd20])],
          consensus = [],
          discrepancies = [''Different number of currencies detected'']\<rparr>"
proof -
  have h1: "map_of [(''currencies_detected'', JArr [usd20])] ''currencies_detected''
             = Some (JArr [usd20])"
    by simp
  have h2: "map_of [(''currencies_detected'', JArr [usd20, usd20])] ''currencies_detected''
             = Some (JArr [usd20, usd20])"
    by simp
  have ne1: "[usd20] \<noteq> []" and ne2: "[usd20, usd20] \<noteq> []"
    and len: "length [usd20] \<noteq> length [usd20, usd20]"
    by simp_all
  from C2_differing_nonempty_lengths_discrepancy [OF h1 h2 ne1 ne2 len] show ?thesis .
qed

section \<open>Failures of the analysis route\<close>

text \<open>
  Claim C3: an upload whose declared type is not an image fails before any provider
  call, and the failure tells a validation failure from a persistence failure. On the
  upload of the test suite, a text file, the route makes no call and raises status 500,
  its own status 400 having been caught by its handler; a failed store write raises
  status 500 as well.
\<close>

theorem C3_non_image_upload_reported_as_500:
  "analyze_currency env
     \<lparr>content_type = Some ''text/plain'', filename = Some ''test.txt'',
      file_bytes = ''This is not an image file''\<rparr> u w
   = (Inl (HTTPException 500 (str_http_exception env 400 ''File must be an image'')), w)
   \<and> fst (analyze_currency
            (demo_env (send_const (Returned ''{}'') (Returned ''{}''))
                      (InsertRaised ''connection refused''))
            demo_file alice empty_world)
     = Inl (HTTPException 500 ''connection refused'')"
  by (simp add: analyze_currency_def analyze_currency_try_def demo_env_def demo_file_def
      alice_def empty_world_def send_const_def convert_image_to_base64_def
      analyze_with_openai_def analyze_with_gemini_def demo_loads_def combine_ai_results_def
      insert_one_def Let_def)

text \<open>
  Claim C4: every provider result the route returns carries the field \<^verbatim>\<open>provider\<close>,
  the structured one included. When both providers answer with the JSON object
  \<^verbatim>\<open>{}\<close>, the route returns both parsed objects as they are, without that field.
\<close>

theorem C4_structured_result_without_provider:
  "fst (analyze_currency
          (demo_env (send_const (Returned ''{}'') (Returned ''{}'')) (Inserted 1))
          demo_file alice empty_world)
   = Inr \<lparr>resp_analysis_id = ''3f2b8c1e-0d4a-4e57-9a6b-1c2d3e4f5a6b'',
          resp_openai_result = JObj [],
          resp_gemini_result = JObj [],
          resp_combined_analysis =
            \<lparr>comparison = ''dual_ai_analysis'', openai_summary = JObj [],
             gemini_summary = JObj [], consensus = [], discrepancies = []\<rparr>,
          resp_timestamp = 1700000000\<rparr>
   \<and> py_get (JObj []) ''provider'' JNull = Inr JNull"
  by (simp add: analyze_currency_def analyze_currency_try_def demo_env_def demo_file_def
      alice_def empty_world_def send_const_def convert_image_to_base64_def
      analyze_with_openai_def analyze_with_gemini_def demo_loads_def combine_ai_results_def
      insert_one_def Let_def)

text \<open>
  Claim C5: each adapter returns a result and raises nothing. A call that raised gives
  the dictionary with \<^verbatim>\<open>error\<close>, the string of the exception, and the provider's name;
  a response that is no JSON gives the dictionary with \<^verbatim>\<open>raw_response\<close>, the text as
  received, and the provider's name; a response that parses gives the parsed value.
\<close>

theorem C5_adapters_contain_failures:
  "(send_message env OpenAI i1 = Raised e1 \<longrightarrow>
      fst (analyze_with_openai env i1 w) =
        JObj [(''error'', JStr e1), (''provider'', JStr ''OpenAI GPT-4o-mini'')]) \<and>
   (send_message env OpenAI i2 = Returned r2 \<and> json_loads env r2 = None \<longrightarrow>
      fst (analyze_with_openai env i2 w) =
        JObj [(''raw_response'', JStr r2), (''provider'', JStr ''OpenAI GPT-4o-mini'')]) \<and>
   (send_message env OpenAI i3 = Returned r3 \<and> json_loads env r3 = Some v3 \<longrightarrow>
      fst (analyze_with_openai env i3 w) = v3) \<and>
   (send_message env Gemini i4 = Raised e4 \<longrightarrow>
      fst (analyze_with_gemini env i4 w) =
        JObj [(''error'', JStr e4), (''provider'', JStr ''Google Gemini 2.0 Flash'')]) \<and>
   (send_message env Gemini i5 = Returned r5 \<and> json_loads env r5 = None \<longrightarrow>
      fst (analyze_with_gemini env i5 w) =
        JObj [(''raw_response'', JStr r5), (''provider'', JStr ''Google Gemini 2.0 Flash'')]) \<and>
   (send_message env Gemini i6 = Returned r6 \<and> json_loads env r6 = Some v6 \<longrightarrow>
      fst (analyze_with_gemini env i6 w) = v6)"
  by (simp add: analyze_with_openai_def analyze_with_gemini_def Let_def)

theorem C5_adapters_contain_failures_witness:
  "fst (analyze_with_openai (demo_env send_by_image (Inserted 1)) ''ZXJy'' empty_world) =
     JObj [(''error'', JStr ''quota exceeded''), (''provider'', JStr ''OpenAI GPT-4o-mini'')] \<and>
   fst (analyze_with_openai (demo_env send_by_image (Inserted 1)) ''cHJvc2U='' empty_world) =
     JObj [(''raw_response'', JStr ''I see no currency''),
           (''provider'', JStr ''OpenAI GPT-4o-mini'')] \<and>
   fst (analyze_with_openai (demo_env send_by_image (Inserted 1)) ''NQ=='' empty_world) =
     JInt 5 \<and>
   fst (analyze_with_gemini (demo_env send_by_image (Inserted 1)) ''ZXJy'' empty_world) =
     JObj [(''error'', JStr ''quota exceeded''),
           (''provider'', JStr ''Google Gemini 2.0 Flash'')] \<and>
   fst (analyze_with_gemini (demo_env send_by_image (Inserted 1)) ''cHJvc2U='' empty_world) =
     JObj [(''raw_response'', JStr ''I see no currency''),
           (''provider'', JStr ''Google Gemini 2.0 Flash'')] \<and>
   fst (analyze_with_gemini (demo_env send_by_image (Inserted 1)) ''e30='' empty_world) =
     JObj []"
proof -
  let ?E = "demo_env send_by_image (Inserted 1)"
  have raised: "send_message ?E OpenAI ''ZXJy'' = Raised ''quota exceeded''"
               "send_message ?E Gemini ''ZXJy'' = Raised ''quota exceeded''"
    by (simp_all add: demo_env_def send_by_image_def)
  have prose: "send_message ?E OpenAI ''cHJvc2U='' = Returned ''I see no currency''
                 \<and> json_loads ?E ''I see no currency'' = None"
              "send_message ?E Gemini ''cHJvc2U='' = Returned ''I see no currency''
                 \<and> json_loads ?E ''I see no currency'' = None"
    by (simp_all add: demo_env_def send_by_image_def demo_loads_def)
  have parsed: "send_message ?E OpenAI ''NQ=='' = Returned ''5''
                 \<and> json_loads ?E ''5'' = Some (JInt 5)"
               "send_message ?E Gemini ''e30='' = Returned ''{}''
                 \<and> json_loads ?E ''{}'' = Some (JObj [])"
    by (simp_all add: demo_env_def send_by_image_def demo_loads_def)
  from C5_adapters_contain_failures
         [of ?E "''ZXJy''" "''quota exceeded''" empty_world
             "''cHJvc2U=''" "''I see no currency''" "''NQ==''" "''5''" "JInt 5"
             "''ZXJy''" "''quota exceeded''" "''cHJvc2U=''" "''I see no currency''"
             "''e30=''" "''{}''" "JObj []"]
       raised prose parsed
  show ?thesis by blast
qed

text \<open>
  Claim C6: when both provider calls raise, the analysis of an image upload still
  succeeds as long as the store takes the record: the response carries the two failed
  results, an empty consensus and no discrepancies, and the record is appended to the
  collection.
\<close>

theorem C6_both_providers_failed_still_succeeds:
  assumes "content_type file = Some ct" and "prefix ''image/'' ct"
      and "send_message env OpenAI (b64encode env (file_bytes file)) = Raised e1"
      and "send_message env Gemini (b64encode env (file_bytes file)) = Raised e2"
      and "insert_result env = Inserted oid"
  shows "\<exists>r. fst (analyze_currency env file u w) = Inr r
           \<and> resp_openai_result r =
               JObj [(''error'', JStr e1), (''provider'', JStr ''OpenAI GPT-4o-mini'')]
           \<and> resp_gemini_result r =
               JObj [(''error'', JStr e2), (''provider'', JStr ''Google Gemini 2.0 Flash'')]
           \<and> consensus (resp_combined_analysis r) = []
           \<and> discrepancies (resp_combined_analysis r) = []
           \<and> analysis_collection (snd (analyze_currency env file u w)) =
               analysis_collection w @
                 [\<lparr>mongo_id = Some oid,
                   doc_id = resp_analysis_id r,
                   doc_user_id = username u,
                   doc_openai_result = resp_openai_result r,
                   doc_gemini_result = resp_gemini_result r,
                   doc_combined_analysis = resp_combined_analysis r,
                   doc_timestamp = resp_timestamp r,
                   doc_filename = filename file\<rparr>]"
  using assms
  by (simp add: analyze_currency_def analyze_currency_try_def convert_image_to_base64_def
      analyze_with_openai_def analyze_with_gemini_def combine_ai_results_def insert_one_def
      Let_def)

theorem C6_both_providers_failed_still_succeeds_witness:
  "\<exists>r. fst (analyze_currency
              (demo_env (send_const (Raised ''timed out'') (Raised ''503 unavailable''))
                        (Inserted 7))
              demo_file alice empty_world) = Inr r
       \<and> resp_openai_result r =
           JObj [(''error'', JStr ''timed out''), (''provider'', JStr ''OpenAI GPT-4o-mini'')]
       \<and> resp_gemini_result r =
           JObj [(''error'', JStr ''503 unavailable''),
                 (''provider'', JStr ''Google Gemini 2.0 Flash'')]
       \<and> consensus (resp_combined_analysis r) = []
       \<and> discrepancies (resp_combined_analysis r) = []
       \<and> analysis_collection
           (snd (analyze_currency
              (demo_env (send_const (Raised ''timed out'') (Raised ''503 unavailable''))
                        (Inserted 7))
              demo_file alice empty_world)) =
           [\<lparr>mongo_id = Some 7,
             doc_id = resp_analysis_id r,
             doc_user_id = ''alice'',
             doc_openai_result = resp_openai_result r,
             doc_gemini_result = resp_gemini_result r,
             doc_combined_analysis = resp_combined_analysis r,
             doc_timestamp = resp_timestamp r,
             doc_filename = Some ''test_currency.png''\<rparr>]"
proof -
  let ?E = "demo_env (send_const (Raised ''timed out'') (Raised ''503 unavailable''))
                     (Inserted 7)"
  have ct: "content_type demo_file = Some ''image/png''" and img: "prefix ''image/'' ''image/png''"
    by (simp_all add: demo_file_def)
  have a: "send_message ?E OpenAI (b64encode ?E (file_bytes demo_file)) = Raised ''timed out''"
    and b: "send_message ?E Gemini (b64encode ?E (file_bytes demo_file))
              = Raised ''503 unavailable''"
    and ins: "insert_result ?E = Inserted 7"
    by (simp_all add: demo_env_def send_const_def)
  from C6_both_providers_failed_still_succeeds [OF ct img a b ins, of alice empty_world]
  show ?thesis
    by (simp add: alice_def empty_world_def demo_file_def)
qed

text \<open>
  Claim C7: when the store write raises, the route raises status 500 and the collection
  is left as it was, on every request; where the write is reached, that is on an image
  upload whose two results the combiner accepts, the detail is the string of the
  store's exception.
\<close>

theorem C7_store_failure_fails_request:
  assumes "insert_result env = InsertRaised m"
  shows "(\<exists>detail. fst (analyze_currency env file u w) = Inl (HTTPException 500 detail))
       \<and> analysis_collection (snd (analyze_currency env file u w)) = analysis_collection w
       \<and> (\<forall>ct c. content_type file = Some ct \<and> prefix ''image/'' ct
             \<and> combine_ai_results
                  (fst (analyze_with_openai env (b64encode env (file_bytes file)) w))
                  (fst (analyze_with_gemini env (b64encode env (file_bytes file)) w)) = Inr c
            \<longrightarrow> fst (analyze_currency env file u w) = Inl (HTTPException 500 m))"
proof (cases "\<exists>ct. content_type file = Some ct \<and> prefix ''image/'' ct")
  case True
  then obtain ct where ct: "content_type file = Some ct" "prefix ''image/'' ct"
    by blast
  show ?thesis
    using assms ct
    by (auto simp add: analyze_currency_def analyze_currency_try_image [OF ct] Let_def
        split: sum.splits)
next
  case False
  then show ?thesis
    by (auto simp add: analyze_currency_def analyze_currency_try_def split: option.splits)
qed

theorem C7_store_failure_fails_request_witness:
  "fst (analyze_currency
          (demo_env (send_const (Returned ''{}'') (Returned ''{}''))
                    (InsertRaised ''connection refused''))
          demo_file alice empty_world)
     = Inl (HTTPException 500 ''connection refused'')
   \<and> analysis_collection
       (snd (analyze_currency
          (demo_env (send_const (Returned ''{}'') (Returned ''{}''))
                    (InsertRaised ''connection refused''))
          demo_file alice empty_world)) = []"
proof -
  let ?E = "demo_env (send_const (Returned ''{}'') (Returned ''{}''))
                     (InsertRaised ''connection refused'')"
  have ins: "insert_result ?E = InsertRaised ''connection refused''"
    by (simp add: demo_env_def)
  have ct: "content_type demo_file = Some ''image/png'' \<and> prefix ''image/'' ''image/png''"
    by (simp add: demo_file_def)
  have comb: "combine_ai_results
                (fst (analyze_with_openai ?E (b64encode ?E (file_bytes demo_file)) empty_world))
                (fst (analyze_with_gemini ?E (b64encode ?E (file_bytes demo_file)) empty_world))
              = Inr \<lparr>comparison = ''dual_ai_analysis'', openai_summary = JObj [],
                     gemini_summary = JObj [], consensus = [], discrepancies = []\<rparr>"
    by (simp add: analyze_with_openai_def analyze_with_gemini_def demo_env_def send_const_def
        demo_loads_def combine_ai_results_def Let_def)
  from C7_store_failure_fails_request [OF ins, of demo_file alice empty_world] ct comb
  have "fst (analyze_currency ?E demo_file alice empty_world)
          = Inl (HTTPException 500 ''connection refused'')"
   and "analysis_collection (snd (analyze_currency ?E demo_file alice empty_world))
          = analysis_collection empty_world"
    by blast+
  then show ?thesis
    by (simp add: empty_world_def)
qed

section \<open>The single read\<close>

text \<open>
  Claim C8: in a store whose records have distinct ids, the read of a stored record's
  id returns that record, without the store's own \<^verbatim>\<open>_id\<close>, to its owner, and raises
  status 404 for any other user; the read of an id that no record has raises status 404.
\<close>

theorem C8_get_analysis_owner_only:
  assumes "distinct (map doc_id (analysis_collection w))"
  shows "(\<forall>d \<in> set (analysis_collection w).
            get_analysis (doc_id d) u w =
              (if username u = doc_user_id d then Inr (d\<lparr>mongo_id := None\<rparr>)
               else Inl (HTTPException 404 ''Analysis not found'')))
       \<and> (aid \<notin> doc_id ` set (analysis_collection w) \<longrightarrow>
            get_analysis aid u w = Inl (HTTPException 404 ''Analysis not found''))"
proof (intro conjI ballI impI)
  fix d assume "d \<in> set (analysis_collection w)"
  with assms show "get_analysis (doc_id d) u w =
              (if username u = doc_user_id d then Inr (d\<lparr>mongo_id := None\<rparr>)
               else Inl (HTTPException 404 ''Analysis not found''))"
    by (auto simp add: get_analysis_def find_distinct_id)
next
  assume "aid \<notin> doc_id ` set (analysis_collection w)"
  then have "find (\<lambda>d. doc_id d = aid \<and> doc_user_id d = username u)
                  (analysis_collection w) = None"
    by (auto simp add: find_None_iff)
  then show "get_analysis aid u w = Inl (HTTPException 404 ''Analysis not found'')"
    by (simp add: get_analysis_def)
qed

theorem C8_get_analysis_owner_only_witness:
  "get_analysis ''3f2b8c1e-0d4a-4e57-9a6b-1c2d3e4f5a6b'' alice stored_world
     = Inr \<lparr>mongo_id = None,
            doc_id = ''3f2b8c1e-0d4a-4e57-9a6b-1c2d3e4f5a6b'',
            doc_user_id = ''alice'',
            doc_openai_result = JObj [],
            doc_gemini_result = JObj [],
            doc_combined_analysis =
              \<lparr>comparison = ''dual_ai_analysis'', openai_summary = JObj [],
               gemini_summary = JObj [], consensus = [], discrepancies = []\<rparr>,
            doc_timestamp = 1700000000,
            doc_filename = Some ''test_currency.png''\<rparr>
   \<and> get_analysis ''3f2b8c1e-0d4a-4e57-9a6b-1c2d3e4f5a6b'' bob stored_world
     = Inl (HTTPException 404 ''Analysis not found'')
   \<and> get_analysis ''no-such-id'' alice stored_world
     = Inl (HTTPException 404 ''Analysis not found'')"
proof -
  let ?d = "\<lparr>mongo_id = Some 1,
            doc_id = ''3f2b8c1e-0d4a-4e57-9a6b-1c2d3e4f5a6b'',
            doc_user_id = ''alice'',
            doc_openai_result = JObj [],
            doc_gemini_result = JObj [],
            doc_combined_analysis =
              \<lparr>comparison = ''dual_ai_analysis'', openai_summary = JObj [],
               gemini_summary = JObj [], consensus = [], discrepancies = []\<rparr>,
            doc_timestamp = 1700000000,
            doc_filename = Some ''test_currency.png''\<rparr>"
  have coll: "analysis_collection stored_world = [?d]"
    by (simp add: stored_world_def analyze_currency_def analyze_currency_try_def demo_env_def
        demo_file_def alice_def empty_world_def send_const_def convert_image_to_base64_def
        analyze_with_openai_def analyze_with_gemini_def demo_loads_def combine_ai_results_def
        insert_one_def Let_def)
  have dist: "distinct (map doc_id (analysis_collection stored_world))"
    by (simp add: coll)
  have mem: "?d \<in> set (analysis_collection stored_world)"
    by (simp add: coll)
  have absent: "''no-such-id'' \<notin> doc_id ` set (analysis_collection stored_world)"
    by (simp add: coll)
  from C8_get_analysis_owner_only [OF dist, of alice "''no-such-id''"] mem absent
  have a: "get_analysis (doc_id ?d) alice stored_world =
             (if username alice = doc_user_id ?d then Inr (?d\<lparr>mongo_id := None\<rparr>)
              else Inl (HTTPException 404 ''Analysis not found''))"
   and c: "get_analysis ''no-such-id'' alice stored_world
             = Inl (HTTPException 404 ''Analysis not found'')"
    by blast+
  from C8_get_analysis_owner_only [OF dist, of bob "''no-such-id''"] mem
  have b: "get_analysis (doc_id ?d) bob stored_world =
             (if username bob = doc_user_id ?d then Inr (?d\<lparr>mongo_id := None\<rparr>)
              else Inl (HTTPException 404 ''Analysis not found''))"
    by blast
  from a b c show ?thesis
    by (simp add: alice_def bob_def)
qed


section \<open>The fan-out\<close>

text \<open>
  Claim C9: on an image upload the route encodes the bytes once and then calls the
  OpenAI adapter and the Gemini adapter with that one encoded string, whatever either
  call does; a response carries the two adapters' results and the combiner's output on
  them; and when one call raised while the other adapter returned a JSON object, the
  route still returns a response, provided the store takes the record.
\<close>

theorem C9_encode_once_both_called:
  assumes "content_type file = Some ct" and "prefix ''image/'' ct"
  shows "calls (snd (analyze_currency env file u w)) =
           calls w @ [B64Encode (file_bytes file),
                      SendMessage OpenAI (b64encode env (file_bytes file)),
                      SendMessage Gemini (b64encode env (file_bytes file))]
       \<and> (\<forall>r. fst (analyze_currency env file u w) = Inr r \<longrightarrow>
             resp_openai_result r =
               fst (analyze_with_openai env (b64encode env (file_bytes file)) w)
           \<and> resp_gemini_result r =
               fst (analyze_with_gemini env (b64encode env (file_bytes file)) w)
           \<and> combine_ai_results (resp_openai_result r) (resp_gemini_result r) =
                Inr (resp_combined_analysis r))
       \<and> (\<forall>e d oid. insert_result env = Inserted oid \<and>
             (send_message env OpenAI (b64encode env (file_bytes file)) = Raised e \<and>
                fst (analyze_with_gemini env (b64encode env (file_bytes file)) w) = JObj d
              \<or> send_message env Gemini (b64encode env (file_bytes file)) = Raised e \<and>
                fst (analyze_with_openai env (b64encode env (file_bytes file)) w) = JObj d)
            \<longrightarrow> (\<exists>r. fst (analyze_currency env file u w) = Inr r))"
proof (intro conjI allI impI)
  note body = analyze_currency_try_image [OF assms, of env u w]
  show "calls (snd (analyze_currency env file u w)) =
           calls w @ [B64Encode (file_bytes file),
                      SendMessage OpenAI (b64encode env (file_bytes file)),
                      SendMessage Gemini (b64encode env (file_bytes file))]"
    by (simp add: analyze_currency_def body Let_def split: sum.splits insert_outcome.splits)
  {
    fix r assume r: "fst (analyze_currency env file u w) = Inr r"
    then show "resp_openai_result r =
                 fst (analyze_with_openai env (b64encode env (file_bytes file)) w)"
      by (auto simp add: analyze_currency_def body Let_def
          split: sum.splits insert_outcome.splits)
    from r show "resp_gemini_result r =
                   fst (analyze_with_gemini env (b64encode env (file_bytes file)) w)"
      by (auto simp add: analyze_currency_def body Let_def
          split: sum.splits insert_outcome.splits)
    from r show "combine_ai_results (resp_openai_result r) (resp_gemini_result r) =
                   Inr (resp_combined_analysis r)"
      by (auto simp add: analyze_currency_def body Let_def
          split: sum.splits insert_outcome.splits)
  }
  fix e d oid
  assume h: "insert_result env = Inserted oid \<and>
             (send_message env OpenAI (b64encode env (file_bytes file)) = Raised e \<and>
                fst (analyze_with_gemini env (b64encode env (file_bytes file)) w) = JObj d
              \<or> send_message env Gemini (b64encode env (file_bytes file)) = Raised e \<and>
                fst (analyze_with_openai env (b64encode env (file_bytes file)) w) = JObj d)"
  then have "\<exists>c. combine_ai_results
                  (fst (analyze_with_openai env (b64encode env (file_bytes file)) w))
                  (fst (analyze_with_gemini env (b64encode env (file_bytes file)) w)) = Inr c"
    by (auto simp add: analyze_with_openai_def analyze_with_gemini_def combine_ai_results_def
        Let_def)
  with h show "\<exists>r. fst (analyze_currency env file u w) = Inr r"
    by (auto simp add: analyze_currency_def body Let_def)
qed

theorem C9_encode_once_both_called_witness:
  "calls (snd (analyze_currency
                 (demo_env (send_const (Raised ''401 Unauthorized'') (Returned ''{}''))
                           (Inserted 1))
                 demo_file alice empty_world))
     = [B64Encode ''hi'', SendMessage OpenAI ''aGk='', SendMessage Gemini ''aGk='']
   \<and> (\<exists>r. fst (analyze_currency
                 (demo_env (send_const (Raised ''401 Unauthorized'') (Returned ''{}''))
                           (Inserted 1))
                 demo_file alice empty_world) = Inr r
          \<and> resp_openai_result r =
              JObj [(''error'', JStr ''401 Unauthorized''),
                    (''provider'', JStr ''OpenAI GPT-4o-mini'')]
          \<and> resp_gemini_result r = JObj []
          \<and> combine_ai_results (resp_openai_result r) (resp_gemini_result r) =
              Inr (resp_combined_analysis r))"
proof -
  let ?E = "demo_env (send_const (Raised ''401 Unauthorized'') (Returned ''{}'')) (Inserted 1)"
  have ct: "content_type demo_file = Some ''image/png''" and img: "prefix ''image/'' ''image/png''"
    by (simp_all add: demo_file_def)
  have enc: "b64encode ?E (file_bytes demo_file) = ''aGk=''"
    by (simp add: demo_env_def demo_file_def)
  have ins: "insert_result ?E = Inserted 1"
    by (simp add: demo_env_def)
  have a: "send_message ?E OpenAI ''aGk='' = Raised ''401 Unauthorized''"
    by (simp add: demo_env_def send_const_def)
  have ra: "fst (analyze_with_openai ?E ''aGk='' empty_world) =
              JObj [(''error'', JStr ''401 Unauthorized''),
                    (''provider'', JStr ''OpenAI GPT-4o-mini'')]"
    by (simp add: analyze_with_openai_def demo_env_def send_const_def Let_def)
  have rb: "fst (analyze_with_gemini ?E ''aGk='' empty_world) = JObj []"
    by (simp add: analyze_with_gemini_def demo_env_def send_const_def demo_loads_def Let_def)
  note inst = C9_encode_once_both_called [OF ct img, of ?E alice empty_world, unfolded enc]
  from inst have tr: "calls (snd (analyze_currency ?E demo_file alice empty_world)) =
           calls empty_world @ [B64Encode (file_bytes demo_file),
                      SendMessage OpenAI ''aGk='', SendMessage Gemini ''aGk='']"
    by blast
  from inst ins a rb have "\<exists>r. fst (analyze_currency ?E demo_file alice empty_world) = Inr r"
    by blast
  then obtain r where r: "fst (analyze_currency ?E demo_file alice empty_world) = Inr r"
    by blast
  with inst have "resp_openai_result r = fst (analyze_with_openai ?E ''aGk='' empty_world)
           \<and> resp_gemini_result r = fst (analyze_with_gemini ?E ''aGk='' empty_world)
           \<and> combine_ai_results (resp_openai_result r) (resp_gemini_result r) =
                Inr (resp_combined_analysis r)"
    by blast
  with r ra rb tr show ?thesis
    by (auto simp add: empty_world_def demo_file_def)
qed

text \<open>
  Claim C10: when the OpenAI response on an image upload parses to a JSON value that is
  no object, the adapter returns that value as it is, the combiner's \<^verbatim>\<open>get\<close> on it
  raises an attribute error, and the route raises status 500 after both provider calls.
\<close>

theorem C10_non_object_json_is_server_error:
  assumes "content_type file = Some ct" and "prefix ''image/'' ct"
      and "send_message env OpenAI (b64encode env (file_bytes file)) = Returned s"
      and "json_loads env s = Some v"
      and "\<forall>d. v \<noteq> JObj d"
  shows "fst (analyze_with_openai env (b64encode env (file_bytes file)) w) = v
       \<and> combine_ai_results v g = Inl (no_attribute v ''get'')
       \<and> analyze_currency env file u w =
           (Inl (HTTPException 500
                   (quoted (type_name v) @ '' object has no attribute '' @ quoted ''get'')),
            w\<lparr>calls := calls w @ [B64Encode (file_bytes file),
                      SendMessage OpenAI (b64encode env (file_bytes file)),
                      SendMessage Gemini (b64encode env (file_bytes file))]\<rparr>)"
proof -
  from assms(5)
  have get: "py_get v ''currencies_detected'' (JArr []) = Inl (no_attribute v ''get'')"
    by (cases v) simp_all
  then have comb: "\<And>g. combine_ai_results v g = Inl (no_attribute v ''get'')"
    by (simp add: combine_ai_results_def)
  from assms(3,4)
  have ad: "fst (analyze_with_openai env (b64encode env (file_bytes file)) w) = v"
    by (simp add: analyze_with_openai_def Let_def)
  show ?thesis
    using comb ad
    by (simp add: analyze_currency_def analyze_currency_try_image [OF assms(1,2)]
        no_attribute_def Let_def)
qed

theorem C10_non_object_json_is_server_error_witness:
  "fst (analyze_with_openai
          (demo_env (send_const (Returned ''5'') (Returned ''{}'')) (Inserted 1))
          ''aGk='' empty_world) = JInt 5
   \<and> combine_ai_results (JInt 5) (JObj []) = Inl (no_attribute (JInt 5) ''get'')
   \<and> analyze_currency
       (demo_env (send_const (Returned ''5'') (Returned ''{}'')) (Inserted 1))
       demo_file alice empty_world
     = (Inl (HTTPException 500
              (CHR 0x27 # ''int'' @ [CHR 0x27] @ '' object has no attribute ''
                 @ CHR 0x27 # ''get'' @ [CHR 0x27])),
        \<lparr>analysis_collection = [],
         calls = [B64Encode ''hi'', SendMessage OpenAI ''aGk='', SendMessage Gemini ''aGk='']\<rparr>)"
proof -
  let ?E = "demo_env (send_const (Returned ''5'') (Returned ''{}'')) (Inserted 1)"
  have ct: "content_type demo_file = Some ''image/png''" and img: "prefix ''image/'' ''image/png''"
    by (simp_all add: demo_file_def)
  have enc: "b64encode ?E (file_bytes demo_file) = ''aGk=''"
    by (simp add: demo_env_def demo_file_def)
  have a: "send_message ?E OpenAI (b64encode ?E (file_bytes demo_file)) = Returned ''5''"
    by (simp add: demo_env_def send_const_def)
  have p: "json_loads ?E ''5'' = Some (JInt 5)"
    by (simp add: demo_env_def demo_loads_def)
  have n: "\<forall>d. JInt 5 \<noteq> JObj d"
    by simp
  from C10_non_object_json_is_server_error
         [OF ct img a p n, of empty_world "JObj []" alice, unfolded enc]
  show ?thesis
    by (simp add: quoted_def empty_world_def demo_file_def)
qed

end
